theory Spec2Isabelle
  imports Main
begin

section \<open>Go values seen by the dispatcher (src/api/rest.go)\<close>

text \<open>
  An \<open>error\<close> value of Go, carrying its message. A Go result \<open>error\<close> that may be
  \<open>nil\<close> is an \<open>error option\<close>, a pointer that may be \<open>nil\<close> is an option as well.
\<close>

datatype error = Error string

text \<open>
  \<open>http.Header\<close>, restricted to what the dispatcher does with it: \<open>Set\<close> replaces the
  value stored under a key or adds the key.
\<close>

type_synonym header = "(string \<times> string) list"

fun Set :: "string \<Rightarrow> string \<Rightarrow> header \<Rightarrow> header" where
  "Set k v [] = [(k, v)]"
| "Set k v ((k', v') # h) = (if k' = k then (k, v) # h else (k', v') # Set k v h)"

definition Get :: "header \<Rightarrow> string \<Rightarrow> string option" where
  "Get h k = map_of h k"

record request =
  Method :: string
  URL :: string
  ReqHeader :: header
  ReqBody :: string

record response =
  StatusCode :: int
  Header :: header
  Body :: string

text \<open>
  What \<open>httpClient.Do\<close> hands back: the pair \<open>(resp, err)\<close> of Go, each of which may be
  \<open>nil\<close>. A transport failure (no connection, deadline of the request's context passed)
  is the pair \<open>(nil, err)\<close>.
\<close>

type_synonym reply = "response option \<times> error option"

text \<open>
  Modelled from the spec: the struct \<open>rateLimitResponse\<close> is declared outside src/; the
  spec gives the rejection payload as \<open>{ retryAfter: duration, global: bool, message: string }\<close>.
  Durations are \<open>time.Duration\<close> values, counted in nanoseconds.
\<close>

record rateLimitResponse =
  RetryAfter :: int
  Global :: bool
  Message :: string

text \<open>
  How a call of the dispatcher ends: it returns Go's pair \<open>(*http.Response, error)\<close>, or it
  panics on a nil pointer dereference.
\<close>

datatype outcome = Return "response option" "error option" | Panic

text \<open>
  What a call does besides returning, in the order it does it. \<open>'k\<close> is the type of
  bucket handles (\<open>*bucket\<close>), \<open>'w\<close> the state of the rate limiter and of the clock; a
  \<open>Send\<close> and a \<open>Sleep\<close> record the state in which they start.
\<close>

datatype ('k, 'w) event =
    Lock string
  | LockObject 'k
  | Release 'k "header option"
  | Send request 'w
  | Sleep int 'w

text \<open>
  The code the dispatcher calls and that is not part of src/api/rest.go: the JSON encoder
  and decoder, the validation of \<open>http.NewRequest\<close>, the bucket operations of the rate
  limiter (\<open>lockBucket\<close>, \<open>lockBucketObject\<close>, \<open>release\<close>), \<open>time.Sleep\<close>, and the two
  constants \<open>utilities.Token\<close> and \<open>UserAgent\<close>. They are parameters of the model.
\<close>

record ('a, 'k, 'w) env =
  Encode :: "'a \<Rightarrow> error + string"
  Decode :: "string \<Rightarrow> error + rateLimitResponse"
  NewRequestErr :: "string \<Rightarrow> string \<Rightarrow> error option"
  lockBucket :: "string \<Rightarrow> 'w \<Rightarrow> 'k \<times> 'w"
  lockBucketObject :: "'k \<Rightarrow> 'w \<Rightarrow> 'k \<times> 'w"
  release :: "'k \<Rightarrow> header option \<Rightarrow> 'w \<Rightarrow> error option \<times> 'w"
  sleep :: "int \<Rightarrow> 'w \<Rightarrow> 'w"
  Token :: string
  UserAgent :: string

section \<open>The bucket key\<close>

text \<open>
  \<open>strings.Index\<close> and \<open>strings.SplitN\<close> for a separator of one byte, which is the only
  way the dispatcher calls them (\<open>strings.SplitN(route, "?", 2)\<close>).
\<close>

fun Index :: "string \<Rightarrow> char \<Rightarrow> nat option" where
  "Index [] c = None"
| "Index (x # s) c = (if x = c then Some 0 else map_option Suc (Index s c))"

fun SplitN :: "string \<Rightarrow> char \<Rightarrow> nat \<Rightarrow> string list" where
  "SplitN s c 0 = []"
| "SplitN s c (Suc 0) = [s]"
| "SplitN s c (Suc (Suc n)) =
     (case Index s c of
        None \<Rightarrow> [s]
      | Some m \<Rightarrow> take m s # SplitN (drop (m + 1) s) c (Suc n))"

text \<open>
  The expression \<open>strings.SplitN(route, "?", 2)[0]\<close>; \<open>None\<close> is the panic of an index
  out of range.
\<close>

definition bucketKey :: "string \<Rightarrow> string option" where
  "bucketKey route = (case SplitN route (CHR ''?'') 2 of [] \<Rightarrow> None | x # _ \<Rightarrow> Some x)"

section \<open>The dispatcher\<close>

text \<open>
  Lines 95 to 118 of \<open>requestWithLockedBucket\<close>: the body is encoded when it is not
  \<open>nil\<close>, the request is made, and its headers are set. The parameter \<open>reason\<close> is
  passed in as in the source, which reads it nowhere in these lines.
\<close>

definition buildRequest ::
  "('a, 'k, 'w) env \<Rightarrow> string \<Rightarrow> string \<Rightarrow> string \<Rightarrow> 'a option \<Rightarrow> string option \<Rightarrow>
   error + request"
where
  "buildRequest E method route contentType b reason =
     (case (case b of None \<Rightarrow> Inr [] | Some v \<Rightarrow> Encode E v) of
        Inl err \<Rightarrow> Inl err
      | Inr buffer \<Rightarrow>
          (case NewRequestErr E method route of
             Some err \<Rightarrow> Inl err
           | None \<Rightarrow>
               (let h1 = Set ''Authorization'' (''Bot '' @ Token E) [];
                    h2 = (if b \<noteq> None then Set ''Content-Type'' contentType h1 else h1);
                    h3 = Set ''User-Agent'' (UserAgent E) h2
                in Inr \<lparr>Method = method, URL = route, ReqHeader = h3, ReqBody = buffer\<rparr>)))"

text \<open>
  Lines 173 and 176: \<open>resp, err = r.requestWithLockedBucket(...)\<close> followed by
  \<open>return resp, nil\<close>. The events \<open>pre\<close> of the attempt that was rejected come first; a
  panic of the inner call passes through.
\<close>

fun afterRetry ::
  "('k, 'w) event list \<Rightarrow> (outcome \<times> 'w \<times> ('k, 'w) event list) option \<Rightarrow>
   (outcome \<times> 'w \<times> ('k, 'w) event list) option"
where
  "afterRetry pre None = None"
| "afterRetry pre (Some (Panic, w, evs)) = Some (Panic, w, pre @ evs)"
| "afterRetry pre (Some (Return resp err, w, evs)) = Some (Return resp None, w, pre @ evs)"

text \<open>
  \<open>requestWithLockedBucket\<close>. The replies of the transport to the successive attempts are
  given as a list; the result is \<open>None\<close> when the list ends before the call does. The
  logging calls are left out, except for the field \<open>resp.Status\<close> that the first of them
  reads before \<open>err\<close> is looked at.
\<close>

fun requestWithLockedBucket ::
  "('a, 'k, 'w) env \<Rightarrow> string \<Rightarrow> string \<Rightarrow> string \<Rightarrow> 'a option \<Rightarrow> 'k \<Rightarrow> int \<Rightarrow>
   string option \<Rightarrow> reply list \<Rightarrow> 'w \<Rightarrow> (outcome \<times> 'w \<times> ('k, 'w) event list) option"
where
  "requestWithLockedBucket E method route contentType b bucket sequence reason replies w =
     (case buildRequest E method route contentType b reason of
        Inl err \<Rightarrow>
          (case release E bucket None w of
             (_, w1) \<Rightarrow> Some (Return None (Some err), w1, [Release bucket None]))
      | Inr req \<Rightarrow>
          (case replies of
             [] \<Rightarrow> None
           | (None, err) # rest \<Rightarrow> Some (Panic, w, [Send req w])
           | (Some r, Some e) # rest \<Rightarrow>
               (case release E bucket None w of
                  (_, w1) \<Rightarrow>
                    Some (Return None (Some e), w1, [Send req w, Release bucket None]))
           | (Some r, None) # rest \<Rightarrow>
               (case release E bucket (Some (Header r)) w of
                  (Some e, w1) \<Rightarrow>
                    Some (Return None (Some e), w1,
                          [Send req w, Release bucket (Some (Header r))])
                | (None, w1) \<Rightarrow>
                    (if StatusCode r = 429 then
                       (case Decode E (Body r) of
                          Inl e \<Rightarrow>
                            Some (Return None (Some e), w1,
                                  [Send req w, Release bucket (Some (Header r))])
                        | Inr rlr \<Rightarrow>
                            (case lockBucketObject E bucket (sleep E (RetryAfter rlr) w1) of
                               (bucket', w3) \<Rightarrow>
                                 afterRetry
                                   [Send req w, Release bucket (Some (Header r)),
                                    Sleep (RetryAfter rlr) w1, LockObject bucket]
                                   (requestWithLockedBucket E method route contentType b
                                      bucket' sequence reason rest w3)))
                     else Some (Return (Some r) None, w1,
                                [Send req w, Release bucket (Some (Header r))])))))"

text \<open>
  \<open>request\<close>, \<open>requestWithBucketID\<close> and \<open>Request\<close>. The bucket is locked before
  \<open>requestWithLockedBucket\<close> is entered, since \<open>r.lockBucket(bucketID)\<close> is one of its
  arguments.
\<close>

definition request ::
  "('a, 'k, 'w) env \<Rightarrow> string \<Rightarrow> string \<Rightarrow> string \<Rightarrow> 'a option \<Rightarrow> string \<Rightarrow> int \<Rightarrow>
   string option \<Rightarrow> reply list \<Rightarrow> 'w \<Rightarrow> (outcome \<times> 'w \<times> ('k, 'w) event list) option"
where
  "request E method route contentType b bucketID sequence reason replies w =
     (case (if bucketID = [] then bucketKey route else Some bucketID) of
        None \<Rightarrow> Some (Panic, w, [])
      | Some bucketID' \<Rightarrow>
          (case lockBucket E bucketID' w of
             (bucket, w1) \<Rightarrow>
               (case requestWithLockedBucket E method route contentType b bucket sequence
                       reason replies w1 of
                  None \<Rightarrow> None
                | Some (out, w2, evs) \<Rightarrow> Some (out, w2, Lock bucketID' # evs))))"

definition requestWithBucketID ::
  "('a, 'k, 'w) env \<Rightarrow> string \<Rightarrow> string \<Rightarrow> 'a option \<Rightarrow> string \<Rightarrow> string option \<Rightarrow>
   reply list \<Rightarrow> 'w \<Rightarrow> (outcome \<times> 'w \<times> ('k, 'w) event list) option"
where
  "requestWithBucketID E method route data bucketID reason replies w =
     request E method route ''application/json'' data bucketID 0 reason replies w"

definition Request ::
  "('a, 'k, 'w) env \<Rightarrow> string \<Rightarrow> string \<Rightarrow> 'a option \<Rightarrow> string option \<Rightarrow>
   reply list \<Rightarrow> 'w \<Rightarrow> (outcome \<times> 'w \<times> ('k, 'w) event list) option"
where
  "Request E method route data reason replies w =
     (case bucketKey route of
        None \<Rightarrow> Some (Panic, w, [])
      | Some bucketID \<Rightarrow> requestWithBucketID E method route data bucketID reason replies w)"

text \<open>Reading a result: how the call ended and what it did.\<close>

fun outcomeOf :: "(outcome \<times> 'w \<times> ('k, 'w) event list) option \<Rightarrow> outcome option" where
  "outcomeOf None = None"
| "outcomeOf (Some (out, w, evs)) = Some out"

fun eventsOf :: "(outcome \<times> 'w \<times> ('k, 'w) event list) option \<Rightarrow> ('k, 'w) event list" where
  "eventsOf None = []"
| "eventsOf (Some (out, w, evs)) = evs"

fun sends :: "('k, 'w) event list \<Rightarrow> (request \<times> 'w) list" where
  "sends [] = []"
| "sends (Send req w # evs) = (req, w) # sends evs"
| "sends (e # evs) = sends evs"

fun sleeps :: "('k, 'w) event list \<Rightarrow> (int \<times> 'w) list" where
  "sleeps [] = []"
| "sleeps (Sleep d w # evs) = (d, w) # sleeps evs"
| "sleeps (e # evs) = sleeps evs"

fun releases :: "('k, 'w) event list \<Rightarrow> ('k \<times> header option) list" where
  "releases [] = []"
| "releases (Release k h # evs) = (k, h) # releases evs"
| "releases (e # evs) = releases evs"

text \<open>
  The same parameters with the decoder changed so that every rejection payload it reads
  carries the flag \<open>g\<close> as its \<open>Global\<close> field.
\<close>

definition forceGlobal :: "bool \<Rightarrow> ('a, 'k, 'w) env \<Rightarrow> ('a, 'k, 'w) env" where
  "forceGlobal g E =
     E\<lparr>Decode := (\<lambda>s. case Decode E s of Inl e \<Rightarrow> Inl e | Inr p \<Rightarrow> Inr (p\<lparr>Global := g\<rparr>))\<rparr>"

section \<open>Responding to an interaction (src/api/application_role_connection_metadata_endpoints.go)\<close>

text \<open>
  The dynamic type of a payload of Go type \<open>any\<close>: one of the three response structs,
  another named type, or a pointer to a type. A payload is \<open>None\<close> for the nil interface
  and otherwise carries its dynamic type and its contents.
\<close>

datatype goType =
    InteractionResponseMessages
  | InteractionResponseAutocomplete
  | InteractionResponseModal
  | Named string
  | Pointer goType

text \<open>
  The lines after the type switch of \<open>CreateInteractionResponse\<close>: the payload is posted
  to the route \<open>u\<close> and the error of the post, if any, is returned. \<open>firePostRequest\<close>
  and the route (made by \<open>parseRoute\<close> from the interaction's id and token) are not under
  src/ and are parameters. The list in the result holds the routes that were posted to.
\<close>

definition post ::
  "(string \<Rightarrow> (goType \<times> 'v) option \<Rightarrow> string option \<Rightarrow> string \<times> error option) \<Rightarrow>
   string \<Rightarrow> (goType \<times> 'v) option \<Rightarrow> error option \<times> string list"
where
  "post firePostRequest u payload =
     (case firePostRequest u payload None of
        (_, Some err) \<Rightarrow> (Some err, [u])
      | (_, None) \<Rightarrow> (None, [u]))"

text \<open>
  \<open>CreateInteractionResponse\<close>: the type switch lets the three double pointers through
  and returns \<open>nil\<close> in its default case.
\<close>

fun CreateInteractionResponse ::
  "(string \<Rightarrow> (goType \<times> 'v) option \<Rightarrow> string option \<Rightarrow> string \<times> error option) \<Rightarrow>
   string \<Rightarrow> (goType \<times> 'v) option \<Rightarrow> error option \<times> string list"
where
  "CreateInteractionResponse firePostRequest u
     (Some (Pointer (Pointer InteractionResponseMessages), v)) =
     post firePostRequest u (Some (Pointer (Pointer InteractionResponseMessages), v))"
| "CreateInteractionResponse firePostRequest u
     (Some (Pointer (Pointer InteractionResponseAutocomplete), v)) =
     post firePostRequest u (Some (Pointer (Pointer InteractionResponseAutocomplete), v))"
| "CreateInteractionResponse firePostRequest u
     (Some (Pointer (Pointer InteractionResponseModal), v)) =
     post firePostRequest u (Some (Pointer (Pointer InteractionResponseModal), v))"
| "CreateInteractionResponse firePostRequest u payload = (None, [])"

section \<open>The bucket and its registry\<close>

text \<open>
  Modelled from the spec: the bucket, the registry and the operations \<open>lockBucket\<close>,
  \<open>lockBucketObject\<close> and \<open>release\<close> are not under src/. The spec (sections 3, 4.1, 4.2
  and 5) gives a bucket the fields \<open>key\<close>, \<open>limit\<close>, \<open>remaining\<close> and \<open>resetAt\<close>, a
  registry that creates buckets lazily with unknown quota, and a process-wide pause gate
  that \<open>acquire\<close> consults. Time is the clock \<open>now\<close>, in nanoseconds; a caller that
  waits moves the clock forward. The mutual exclusion between concurrent callers is not
  part of this sequential model.
\<close>

record bucket =
  key :: string
  limit :: int
  remaining :: int
  resetAt :: int

record limiter =
  now :: int
  pausedUntil :: int
  buckets :: "(string \<times> bucket) list"

fun store :: "string \<Rightarrow> bucket \<Rightarrow> (string \<times> bucket) list \<Rightarrow> (string \<times> bucket) list" where
  "store k b [] = [(k, b)]"
| "store k b ((k', b') # bs) = (if k' = k then (k, b) # bs else (k', b') # store k b bs)"

text \<open>
  Modelled from the spec: \<open>resolve(key)\<close> of the registry (section 4.1): the bucket stored
  under the key, or a new one with \<open>limit = 0\<close>, \<open>remaining = 0\<close> and \<open>resetAt\<close> zero.
\<close>

definition resolve :: "string \<Rightarrow> limiter \<Rightarrow> bucket \<times> limiter" where
  "resolve k w =
     (case map_of (buckets w) k of
        Some b \<Rightarrow> (b, w)
      | None \<Rightarrow>
          (let b = \<lparr>key = k, limit = 0, remaining = 0, resetAt = 0\<rparr>
           in (b, w\<lparr>buckets := store k b (buckets w)\<rparr>)))"

text \<open>
  Modelled from the spec: \<open>acquire()\<close> (sections 4.2 and 5). The caller first waits for the
  pause gate. Then, if \<open>remaining > 0\<close>, it proceeds and \<open>remaining\<close> is decremented; if
  \<open>remaining = 0\<close> and the time is before \<open>resetAt\<close>, it waits until \<open>resetAt\<close> and
  proceeds; otherwise (quota unknown, or the window has passed) it proceeds at once.
\<close>

definition acquire :: "string \<Rightarrow> limiter \<Rightarrow> limiter" where
  "acquire k w =
     (case resolve k w of
        (b, w1) \<Rightarrow>
          (let t0 = max (now w1) (pausedUntil w1)
           in if remaining b > 0 then
                w1\<lparr>now := t0, buckets := store k (b\<lparr>remaining := remaining b - 1\<rparr>) (buckets w1)\<rparr>
              else if remaining b = 0 \<and> t0 < resetAt b then w1\<lparr>now := resetAt b\<rparr>
              else w1\<lparr>now := t0\<rparr>))"

text \<open>
  Modelled from the spec: the decimal value of a header field; \<open>None\<close> when the field is
  not a non-empty string of digits.
\<close>

fun digits :: "string \<Rightarrow> int \<Rightarrow> int option" where
  "digits [] acc = Some acc"
| "digits (c # s) acc =
     (if (48::nat) \<le> of_char c \<and> of_char c \<le> (57::nat)
      then digits s (10 * acc + (of_char c - 48)) else None)"

definition parseInt :: "string \<Rightarrow> int option" where
  "parseInt s = (if s = [] then None else digits s 0)"

text \<open>
  Modelled from the spec: \<open>release(responseHeaders | nil)\<close> (sections 4.2 and 9). Without
  headers the quota is left as it is. With headers, each of the fields limit, remaining
  and reset time that is present overwrites the bucket's value, and a field that is missing
  leaves the value as it was. The spec does not say when \<open>release\<close> fails; here it fails,
  changing nothing, when a field that is present is not a number.
\<close>

definition field :: "header \<Rightarrow> string \<Rightarrow> int \<Rightarrow> error + int" where
  "field h name old =
     (case Get h name of
        None \<Rightarrow> Inr old
      | Some s \<Rightarrow> (case parseInt s of None \<Rightarrow> Inl (Error (''malformed '' @ name)) | Some n \<Rightarrow> Inr n))"

definition releaseBucket :: "string \<Rightarrow> header option \<Rightarrow> limiter \<Rightarrow> error option \<times> limiter" where
  "releaseBucket k hdr w =
     (case hdr of
        None \<Rightarrow> (None, w)
      | Some h \<Rightarrow>
          (case resolve k w of
             (b, w1) \<Rightarrow>
               (case field h ''X-RateLimit-Limit'' (limit b) of
                  Inl e \<Rightarrow> (Some e, w)
                | Inr l \<Rightarrow>
                    (case field h ''X-RateLimit-Remaining'' (remaining b) of
                       Inl e \<Rightarrow> (Some e, w)
                     | Inr r \<Rightarrow>
                         (case field h ''X-RateLimit-Reset'' (resetAt b) of
                            Inl e \<Rightarrow> (Some e, w)
                          | Inr t \<Rightarrow>
                              (None,
                               w1\<lparr>buckets :=
                                    store k (b\<lparr>limit := l, remaining := r, resetAt := t\<rparr>)
                                      (buckets w1)\<rparr>))))))"

text \<open>
  The dispatcher over this rate limiter: a bucket handle is the bucket's key, locking a
  bucket is \<open>acquire\<close>, and \<open>time.Sleep\<close> moves the clock forward by the duration when it is
  positive. The encoder, the decoder and the rest stay parameters.
\<close>

definition limiterEnv ::
  "('a \<Rightarrow> error + string) \<Rightarrow> (string \<Rightarrow> error + rateLimitResponse) \<Rightarrow>
   (string \<Rightarrow> string \<Rightarrow> error option) \<Rightarrow> string \<Rightarrow> string \<Rightarrow> ('a, string, limiter) env"
where
  "limiterEnv enc dec nre tok ua =
     \<lparr>Encode = enc, Decode = dec, NewRequestErr = nre,
      lockBucket = (\<lambda>k w. (k, acquire k w)),
      lockBucketObject = (\<lambda>k w. (k, acquire k w)),
      release = releaseBucket,
      sleep = (\<lambda>d w. w\<lparr>now := now w + max 0 d\<rparr>),
      Token = tok, UserAgent = ua\<rparr>"

section \<open>Inputs for the examples\<close>

text \<open>
  A body is a text, or a Go channel, which \<open>encoding/json\<close> refuses to encode. The
  stand-in for the decoder of the rejection body reads the wait in nanoseconds as a
  decimal number, preceded by the letter g when the rejection is global.
\<close>

datatype body = Text string | Chan

fun encodeBody :: "body \<Rightarrow> error + string" where
  "encodeBody (Text s) = Inr s"
| "encodeBody Chan = Inl (Error ''json: unsupported type: chan int'')"

definition decodeRejection :: "string \<Rightarrow> error + rateLimitResponse" where
  "decodeRejection s =
     (case s of
        [] \<Rightarrow> Inl (Error ''EOF'')
      | c # t \<Rightarrow>
          (if c = CHR ''g'' then
             (case parseInt t of
                None \<Rightarrow> Inl (Error ''invalid character'')
              | Some n \<Rightarrow> Inr \<lparr>RetryAfter = n, Global = True, Message = []\<rparr>)
           else
             (case parseInt s of
                None \<Rightarrow> Inl (Error ''invalid character'')
              | Some n \<Rightarrow> Inr \<lparr>RetryAfter = n, Global = False, Message = []\<rparr>)))"

definition exampleEnv :: "(body, string, limiter) env" where
  "exampleEnv =
     limiterEnv encodeBody decodeRejection (\<lambda>method route. None) ''token'' ''DiscordBot''"

definition world0 :: limiter where
  "world0 = \<lparr>now = 0, pausedUntil = 0, buckets = []\<rparr>"

text \<open>Responses, a request and rate limiter states used in the examples.\<close>

definition notFound :: response where
  "notFound = \<lparr>StatusCode = 404, Header = [], Body = ''not found''\<rparr>"

definition ok :: response where
  "ok = \<lparr>StatusCode = 200, Header = [], Body = ''{}''\<rparr>"

definition rejected :: response where
  "rejected = \<lparr>StatusCode = 429, Header = [], Body = ''5000''\<rparr>"

definition rejectedHtml :: response where
  "rejectedHtml = \<lparr>StatusCode = 429, Header = [], Body = ''<html>''\<rparr>"

definition getItem :: request where
  "getItem = \<lparr>Method = ''GET'', URL = ''/items/1'',
              ReqHeader = [(''Authorization'', ''Bot token''), (''User-Agent'', ''DiscordBot'')],
              ReqBody = []\<rparr>"

definition worldItem :: limiter where
  "worldItem = \<lparr>now = 0, pausedUntil = 0,
                buckets = [(''/items/1'', \<lparr>key = ''/items/1'', limit = 0, remaining = 0, resetAt = 0\<rparr>)]\<rparr>"

definition exhausted :: bucket where
  "exhausted = \<lparr>key = ''/items/1'', limit = 5, remaining = 0, resetAt = 10000\<rparr>"

definition worldExhausted :: limiter where
  "worldExhausted = \<lparr>now = 2000, pausedUntil = 0, buckets = [(''/items/1'', exhausted)]\<rparr>"


section \<open>Case lemmas for the dispatcher\<close>

declare requestWithLockedBucket.simps [simp del]

lemma Index_takeWhile:
  "Index s c = (if c \<in> set s then Some (length (takeWhile (\<lambda>x. x \<noteq> c) s)) else None)"
  by (induction s) auto

lemma take_length_takeWhile: "take (length (takeWhile P s)) s = takeWhile P s"
  by (induction s) auto

lemma takeWhile_absent: "c \<notin> set s \<Longrightarrow> takeWhile (\<lambda>x. x \<noteq> c) s = s"
  by (induction s) auto

lemma rwlb_build_error:
  assumes "buildRequest E method route contentType b reason = Inl err"
  shows "requestWithLockedBucket E method route contentType b bucket sequence reason replies w =
         Some (Return None (Some err), snd (release E bucket None w), [Release bucket None])"
  using assms by (simp add: requestWithLockedBucket.simps split: prod.splits)

lemma rwlb_no_reply:
  assumes "buildRequest E method route contentType b reason = Inr req"
  shows "requestWithLockedBucket E method route contentType b bucket sequence reason [] w = None"
  using assms by (simp add: requestWithLockedBucket.simps)

lemma rwlb_nil_response:
  assumes "buildRequest E method route contentType b reason = Inr req"
  shows "requestWithLockedBucket E method route contentType b bucket sequence reason
           ((None, err) # rest) w = Some (Panic, w, [Send req w])"
  using assms by (simp add: requestWithLockedBucket.simps)

lemma rwlb_transport_error:
  assumes "buildRequest E method route contentType b reason = Inr req"
  shows "requestWithLockedBucket E method route contentType b bucket sequence reason
           ((Some r, Some e) # rest) w =
         Some (Return None (Some e), snd (release E bucket None w),
               [Send req w, Release bucket None])"
  using assms by (simp add: requestWithLockedBucket.simps split: prod.splits)

lemma rwlb_release_error:
  assumes "buildRequest E method route contentType b reason = Inr req"
      and "release E bucket (Some (Header r)) w = (Some e, w1)"
  shows "requestWithLockedBucket E method route contentType b bucket sequence reason
           ((Some r, None) # rest) w =
         Some (Return None (Some e), w1, [Send req w, Release bucket (Some (Header r))])"
  using assms by (simp add: requestWithLockedBucket.simps)

lemma rwlb_other_status:
  assumes "buildRequest E method route contentType b reason = Inr req"
      and "release E bucket (Some (Header r)) w = (None, w1)"
      and "StatusCode r \<noteq> 429"
  shows "requestWithLockedBucket E method route contentType b bucket sequence reason
           ((Some r, None) # rest) w =
         Some (Return (Some r) None, w1, [Send req w, Release bucket (Some (Header r))])"
  using assms by (simp add: requestWithLockedBucket.simps)

lemma rwlb_decode_error:
  assumes "buildRequest E method route contentType b reason = Inr req"
      and "release E bucket (Some (Header r)) w = (None, w1)"
      and "StatusCode r = 429"
      and "Decode E (Body r) = Inl e"
  shows "requestWithLockedBucket E method route contentType b bucket sequence reason
           ((Some r, None) # rest) w =
         Some (Return None (Some e), w1, [Send req w, Release bucket (Some (Header r))])"
  using assms by (simp add: requestWithLockedBucket.simps)

lemma rwlb_rejected:
  assumes "buildRequest E method route contentType b reason = Inr req"
      and "release E bucket (Some (Header r)) w = (None, w1)"
      and "StatusCode r = 429"
      and "Decode E (Body r) = Inr rlr"
      and "lockBucketObject E bucket (sleep E (RetryAfter rlr) w1) = (bucket', w3)"
  shows "requestWithLockedBucket E method route contentType b bucket sequence reason
           ((Some r, None) # rest) w =
         afterRetry [Send req w, Release bucket (Some (Header r)),
                     Sleep (RetryAfter rlr) w1, LockObject bucket]
           (requestWithLockedBucket E method route contentType b bucket' sequence reason rest w3)"
  using assms by (simp add: requestWithLockedBucket.simps)

lemma forceGlobal_fields [simp]:
  "Encode (forceGlobal g E) = Encode E"
  "NewRequestErr (forceGlobal g E) = NewRequestErr E"
  "lockBucket (forceGlobal g E) = lockBucket E"
  "lockBucketObject (forceGlobal g E) = lockBucketObject E"
  "release (forceGlobal g E) = release E"
  "sleep (forceGlobal g E) = sleep E"
  "Token (forceGlobal g E) = Token E"
  "UserAgent (forceGlobal g E) = UserAgent E"
  by (simp_all add: forceGlobal_def)

lemma forceGlobal_Decode:
  "Decode (forceGlobal g E) s = (case Decode E s of Inl e \<Rightarrow> Inl e | Inr p \<Rightarrow> Inr (p\<lparr>Global := g\<rparr>))"
  by (simp add: forceGlobal_def)

lemma buildRequest_forceGlobal:
  "buildRequest (forceGlobal g E) method route contentType b reason =
   buildRequest E method route contentType b reason"
  by (simp add: buildRequest_def cong: option.case_cong sum.case_cong)

lemma sends_append: "sends (xs @ ys) = sends xs @ sends ys"
  by (induction xs rule: sends.induct) auto

lemma afterRetry_Some:
  assumes "afterRetry pre r = Some (out, w', evs)"
  shows "\<exists>out' evs'. r = Some (out', w', evs') \<and> evs = pre @ evs'"
  using assms by (cases "(pre, r)" rule: afterRetry.cases) auto

lemma resolve_clock:
  "now (snd (resolve k w)) = now w" "pausedUntil (snd (resolve k w)) = pausedUntil w"
  by (simp_all add: resolve_def Let_def split: option.splits)

lemma resolve_known: "map_of (buckets w) k = Some b \<Longrightarrow> resolve k w = (b, w)"
  by (simp add: resolve_def)

lemma acquire_clock: "now w \<le> now (acquire k w)"
proof -
  obtain b w1 where r: "resolve k w = (b, w1)"
    by (cases "resolve k w")
  with resolve_clock(1) [of k w] have "now w1 = now w"
    by simp
  with r show ?thesis
    by (simp add: acquire_def Let_def)
qed

lemma acquire_waits:
  assumes "map_of (buckets w) k = Some b" and "remaining b = 0"
  shows "resetAt b \<le> now (acquire k w)"
  using assms by (auto simp: acquire_def resolve_known Let_def max_def)

lemma releaseBucket_clock: "now (snd (releaseBucket k h w)) = now w"
proof (cases h)
  case None
  then show ?thesis by (simp add: releaseBucket_def)
next
  case (Some hd)
  obtain b w1 where r: "resolve k w = (b, w1)"
    by (cases "resolve k w")
  with resolve_clock(1) [of k w] have "now w1 = now w"
    by simp
  with Some r show ?thesis
    by (simp add: releaseBucket_def split: sum.splits)
qed

lemma limiterEnv_fields [simp]:
  "Encode (limiterEnv enc dec nre tok ua) = enc"
  "Decode (limiterEnv enc dec nre tok ua) = dec"
  "NewRequestErr (limiterEnv enc dec nre tok ua) = nre"
  "lockBucket (limiterEnv enc dec nre tok ua) = (\<lambda>k w. (k, acquire k w))"
  "lockBucketObject (limiterEnv enc dec nre tok ua) = (\<lambda>k w. (k, acquire k w))"
  "release (limiterEnv enc dec nre tok ua) = releaseBucket"
  "sleep (limiterEnv enc dec nre tok ua) = (\<lambda>d w. w\<lparr>now := now w + max 0 d\<rparr>)"
  "Token (limiterEnv enc dec nre tok ua) = tok"
  "UserAgent (limiterEnv enc dec nre tok ua) = ua"
  by (simp_all add: limiterEnv_def)

lemma sends_not_before_start:
  assumes "requestWithLockedBucket (limiterEnv enc dec nre tok ua) method route contentType b
             bucket sequence reason replies w = Some (out, w', evs)"
      and "(req, ws) \<in> set (sends evs)"
  shows "now w \<le> now ws"
  using assms
proof (induction replies arbitrary: bucket w out w' evs)
  case Nil
  then show ?case
    by (cases "buildRequest (limiterEnv enc dec nre tok ua) method route contentType b reason")
       (auto simp: rwlb_build_error rwlb_no_reply)
next
  case (Cons x rest)
  let ?E = "limiterEnv enc dec nre tok ua"
  show ?case
  proof (cases "buildRequest ?E method route contentType b reason")
    case (Inl err)
    with Cons.prems show ?thesis
      by (auto simp: rwlb_build_error)
  next
    case (Inr rq)
    obtain resp err where x: "x = (resp, err)"
      by (cases x)
    show ?thesis
    proof (cases resp)
      case None
      with Cons.prems Inr x show ?thesis
        by (auto simp: rwlb_nil_response)
    next
      case (Some r)
      note resp = this
      show ?thesis
      proof (cases err)
        case (Some e)
        with Cons.prems Inr x resp show ?thesis
          by (auto simp: rwlb_transport_error)
      next
        case None
        obtain re w1 where rel: "release ?E bucket (Some (Header r)) w = (re, w1)"
          by (cases "release ?E bucket (Some (Header r)) w")
        with releaseBucket_clock [of bucket "Some (Header r)" w] have w1: "now w1 = now w"
          by simp
        show ?thesis
        proof (cases re)
          case (Some e)
          with Cons.prems Inr x resp None rel show ?thesis
            by (auto simp: rwlb_release_error)
        next
          case re: None
          show ?thesis
          proof (cases "StatusCode r = 429")
            case False
            with Cons.prems Inr x resp None rel re show ?thesis
              by (auto simp: rwlb_other_status)
          next
            case True
            show ?thesis
            proof (cases "Decode ?E (Body r)")
              case (Inl e)
              with Cons.prems Inr x resp None rel re True show ?thesis
                by (auto simp: rwlb_decode_error)
            next
              case (Inr rlr)
              let ?w3 = "acquire bucket (w1\<lparr>now := now w1 + max 0 (RetryAfter rlr)\<rparr>)"
              let ?pre = "[Send rq w, Release bucket (Some (Header r)),
                           Sleep (RetryAfter rlr) w1, LockObject bucket]"
              have lk: "lockBucketObject ?E bucket (sleep ?E (RetryAfter rlr) w1) = (bucket, ?w3)"
                by simp
              from Cons.prems(1) x resp None re rel
                   rwlb_rejected [OF \<open>buildRequest ?E method route contentType b reason = Inr rq\<close>
                     _ True Inr lk, of w sequence rest]
              have "afterRetry ?pre
                      (requestWithLockedBucket ?E method route contentType b bucket sequence
                         reason rest ?w3) = Some (out, w', evs)"
                by simp
              from afterRetry_Some [OF this] obtain out' evs' where
                inner: "requestWithLockedBucket ?E method route contentType b bucket sequence
                          reason rest ?w3 = Some (out', w', evs')"
                and evs: "evs = ?pre @ evs'"
                by blast
              from Cons.prems(2) evs
              have "(req, ws) = (rq, w) \<or> (req, ws) \<in> set (sends evs')"
                by (simp add: sends_append)
              then show ?thesis
              proof
                assume "(req, ws) = (rq, w)"
                then show ?thesis by simp
              next
                assume "(req, ws) \<in> set (sends evs')"
                from Cons.IH [OF inner this] have "now ?w3 \<le> now ws" .
                moreover
                have "now (w1\<lparr>now := now w1 + max 0 (RetryAfter rlr)\<rparr>) \<le> now ?w3"
                  by (rule acquire_clock)
                ultimately show ?thesis using w1 by simp
              qed
            qed
          qed
        qed
      qed
    qed
  qed
qed

section \<open>Statuses other than 429\<close>

text \<open>
  Claim C1 at the failing input: a GET whose response has status 404, which is neither 429
  nor a success. The switch on the status has no arm for it, so the call ends in
  \<open>return resp, nil\<close>: the caller gets the response and a nil error.
\<close>

theorem status_404_yields_nil_error:
  "outcomeOf (Request exampleEnv ''GET'' ''/items/1'' None None [(Some notFound, None)] world0) =
   Some (Return (Some notFound) None)"
  by code_simp

section \<open>The bucket key of a route\<close>

text \<open>
  Claim C2, as the code has it: the bucket key is the route up to its first question mark
  and nothing else is removed or normalised, so two routes have the same key exactly when
  they agree up to the first question mark.
\<close>

theorem bucketKey_strips_query_only:
  "bucketKey route = Some (takeWhile (\<lambda>c. c \<noteq> CHR ''?'') route) \<and>
   (bucketKey r1 = bucketKey r2) =
   (takeWhile (\<lambda>c. c \<noteq> CHR ''?'') r1 = takeWhile (\<lambda>c. c \<noteq> CHR ''?'') r2)"
proof -
  have key: "bucketKey r = Some (takeWhile (\<lambda>c. c \<noteq> CHR ''?'') r)" for r
  proof (cases "CHR ''?'' \<in> set r")
    case True
    then have "SplitN r (CHR ''?'') 2 =
               [takeWhile (\<lambda>c. c \<noteq> CHR ''?'') r,
                drop (Suc (length (takeWhile (\<lambda>c. c \<noteq> CHR ''?'') r))) r]"
      by (simp add: numeral_2_eq_2 Index_takeWhile take_length_takeWhile)
    then show ?thesis
      by (simp add: bucketKey_def)
  next
    case False
    then have "SplitN r (CHR ''?'') 2 = [r]"
      by (simp add: numeral_2_eq_2 Index_takeWhile)
    with False show ?thesis
      by (simp add: bucketKey_def takeWhile_absent)
  qed
  show ?thesis
    by (simp add: key)
qed

text \<open>
  Claim C2 as stated fails: two routes that differ only in the last path segment have
  different keys.
\<close>

theorem bucketKey_differs_on_path_segment:
  "bucketKey ''/items/1'' \<noteq> bucketKey ''/items/2''"
  by code_simp

section \<open>The wait and the retry after a rejection\<close>

text \<open>
  Claim C3, as the code has it: when a response with status 429 arrives without a transport
  error, \<open>release\<close> accepts its headers and its body decodes, the dispatcher sleeps once,
  for the \<open>RetryAfter\<close> of the body, locks the bucket again and makes one further
  attempt with the replies that remain; what follows is what that attempt does.
\<close>

theorem rejection_sleeps_once_then_retries:
  assumes "buildRequest E method route contentType b reason = Inr req"
      and "release E bucket (Some (Header r)) w = (None, w1)"
      and "StatusCode r = 429"
      and "Decode E (Body r) = Inr rlr"
      and "lockBucketObject E bucket (sleep E (RetryAfter rlr) w1) = (bucket', w3)"
  shows "requestWithLockedBucket E method route contentType b bucket sequence reason
           ((Some r, None) # rest) w =
         afterRetry [Send req w, Release bucket (Some (Header r)),
                     Sleep (RetryAfter rlr) w1, LockObject bucket]
           (requestWithLockedBucket E method route contentType b bucket' sequence reason rest w3)"
  using assms by (simp add: requestWithLockedBucket.simps)

text \<open>
  Claim C3, the theorem at a rejection with a wait of 5000 that is followed by a
  response with status 200.
\<close>

theorem rejection_sleeps_once_then_retries_witness:
  "buildRequest exampleEnv ''GET'' ''/items/1'' ''application/json'' None None = Inr getItem \<and>
   release exampleEnv ''/items/1'' (Some (Header rejected)) worldItem = (None, worldItem) \<and>
   StatusCode rejected = 429 \<and>
   Decode exampleEnv (Body rejected) = Inr \<lparr>RetryAfter = 5000, Global = False, Message = []\<rparr> \<and>
   lockBucketObject exampleEnv ''/items/1'' (sleep exampleEnv 5000 worldItem) =
     (''/items/1'', worldItem\<lparr>now := 5000\<rparr>) \<and>
   requestWithLockedBucket exampleEnv ''GET'' ''/items/1'' ''application/json'' None ''/items/1'' 0
     None [(Some rejected, None), (Some ok, None)] worldItem =
   Some (Return (Some ok) None, worldItem\<lparr>now := 5000\<rparr>,
         [Send getItem worldItem, Release ''/items/1'' (Some []),
          Sleep 5000 worldItem, LockObject ''/items/1'',
          Send getItem (worldItem\<lparr>now := 5000\<rparr>), Release ''/items/1'' (Some [])])"
proof -
  have h1: "buildRequest exampleEnv ''GET'' ''/items/1'' ''application/json'' None None = Inr getItem"
    by code_simp
  have h2: "release exampleEnv ''/items/1'' (Some (Header rejected)) worldItem = (None, worldItem)"
    by code_simp
  have h3: "StatusCode rejected = 429"
    by (simp add: rejected_def)
  have h4: "Decode exampleEnv (Body rejected) =
            Inr \<lparr>RetryAfter = 5000, Global = False, Message = []\<rparr>"
    by code_simp
  have h5: "lockBucketObject exampleEnv ''/items/1''
              (sleep exampleEnv (RetryAfter \<lparr>RetryAfter = 5000, Global = False, Message = []\<rparr>)
                 worldItem) =
            (''/items/1'', worldItem\<lparr>now := 5000\<rparr>)"
    by code_simp
  have h6: "requestWithLockedBucket exampleEnv ''GET'' ''/items/1'' ''application/json'' None
              ''/items/1'' 0 None [(Some ok, None)] (worldItem\<lparr>now := 5000\<rparr>) =
            Some (Return (Some ok) None, worldItem\<lparr>now := 5000\<rparr>,
                  [Send getItem (worldItem\<lparr>now := 5000\<rparr>), Release ''/items/1'' (Some [])])"
    by code_simp
  from rejection_sleeps_once_then_retries [OF h1 h2 h3 h4 h5, of 0 "[(Some ok, None)]"]
       h1 h2 h3 h4 h5 h6
  show ?thesis
    by (simp add: rejected_def)
qed

text \<open>
  Claim C3 as stated fails: for a response with status 429 whose body does not decode the
  dispatcher returns the decoder's error, without a sleep and without a second send.
\<close>

theorem undecodable_rejection_no_sleep_no_retry:
  "outcomeOf (Request exampleEnv ''GET'' ''/items/1'' None None
                [(Some rejectedHtml, None), (Some ok, None)] world0) =
     Some (Return None (Some (Error ''invalid character''))) \<and>
   sleeps (eventsOf (Request exampleEnv ''GET'' ''/items/1'' None None
                       [(Some rejectedHtml, None), (Some ok, None)] world0)) = [] \<and>
   sends (eventsOf (Request exampleEnv ''GET'' ''/items/1'' None None
                      [(Some rejectedHtml, None), (Some ok, None)] world0)) =
     [(getItem, worldItem)]"
  by code_simp

section \<open>The global flag of a rejection\<close>

text \<open>
  The dispatcher never reads the global flag of a rejection. Whatever flag the decoded
  rejections carry, a call ends the same way, leaves the same state and does the same
  things, for every implementation of the bucket operations. Whether other buckets are
  held back during the wait is therefore decided by \<open>release\<close> and \<open>lockBucket\<close> alone.
\<close>

lemma global_flag_is_ignored:
  "requestWithLockedBucket (forceGlobal g E) method route contentType b bucket sequence reason
     replies w =
   requestWithLockedBucket E method route contentType b bucket sequence reason replies w"
proof (induction replies arbitrary: bucket w)
  case Nil
  show ?case
    by (simp add: requestWithLockedBucket.simps [of _ _ _ _ _ _ _ _ "[]"] buildRequest_forceGlobal
             cong: sum.case_cong)
next
  case (Cons x rest)
  show ?case
    apply (subst requestWithLockedBucket.simps)
    apply (subst (2) requestWithLockedBucket.simps)
    apply (simp add: buildRequest_forceGlobal Cons.IH forceGlobal_Decode
               split: sum.splits prod.splits option.splits list.splits)
    done
qed

section \<open>The error of the retry\<close>

text \<open>
  Claim C5 at the failing input: the first response is a rejection, the second a rejection
  whose body does not decode. The second attempt alone returns the decoder's error; the
  caller of the whole request gets a nil response and a nil error.
\<close>

theorem retry_error_replaced_by_nil:
  "outcomeOf (requestWithLockedBucket exampleEnv ''GET'' ''/items/1'' ''application/json'' None
                ''/items/1'' 0 None [(Some rejectedHtml, None)] (worldItem\<lparr>now := 5000\<rparr>)) =
     Some (Return None (Some (Error ''invalid character''))) \<and>
   Request exampleEnv ''GET'' ''/items/1'' None None
     [(Some rejected, None), (Some rejectedHtml, None)] world0 =
     Some (Return None None, worldItem\<lparr>now := 5000\<rparr>,
           [Lock ''/items/1'', Send getItem worldItem, Release ''/items/1'' (Some []),
            Sleep 5000 worldItem, LockObject ''/items/1'',
            Send getItem (worldItem\<lparr>now := 5000\<rparr>), Release ''/items/1'' (Some [])])"
  by code_simp

section \<open>Transport failures\<close>

text \<open>
  Claim C6 at the failing input: the transport returns no response and an error. The
  call panics, and the bucket is not released.
\<close>

theorem transport_failure_panics_before_release:
  "outcomeOf (Request exampleEnv ''GET'' ''/items/1'' None None
                [(None, Some (Error ''context deadline exceeded''))] world0) = Some Panic \<and>
   releases (eventsOf (Request exampleEnv ''GET'' ''/items/1'' None None
                         [(None, Some (Error ''context deadline exceeded''))] world0)) = []"
  by code_simp

section \<open>The headers of the request\<close>

text \<open>
  Claim C7 at the failing input: a post with a body and the reason \<open>cleanup\<close>. The
  request that is sent has the three headers Authorization, Content-Type and User-Agent,
  and none that carries the reason.
\<close>

theorem reason_header_missing:
  "map fst (sends (eventsOf (Request exampleEnv ''POST'' ''/channels/1/webhooks''
                               (Some (Text ''{}'')) (Some ''cleanup'') [(Some ok, None)] world0))) =
   [\<lparr>Method = ''POST'', URL = ''/channels/1/webhooks'',
     ReqHeader = [(''Authorization'', ''Bot token''), (''Content-Type'', ''application/json''),
                  (''User-Agent'', ''DiscordBot'')],
     ReqBody = ''{}''\<rparr>]"
  by code_simp

section \<open>Bodies that cannot be encoded\<close>

text \<open>
  Claim C8, as the code has it: when the body cannot be encoded, \<open>Request\<close> has locked
  the bucket of the route before the encoder runs; it then releases that bucket without
  headers and returns the encoder's error, and nothing is sent.
\<close>

theorem encode_error_releases_locked_bucket:
  assumes "Encode E v = Inl err"
      and "bucketKey route = Some k"
      and "lockBucket E k w = (bucket, w1)"
  shows "Request E method route (Some v) reason replies w =
         Some (Return None (Some err), snd (release E bucket None w1),
               [Lock k, Release bucket None])"
proof -
  from assms(1) have "buildRequest E method route ''application/json'' (Some v) reason = Inl err"
    by (simp add: buildRequest_def)
  from rwlb_build_error [OF this] assms(2,3) show ?thesis
    by (cases "k = []") (simp_all add: Request_def requestWithBucketID_def request_def)
qed

text \<open>
  Claim C8, the theorem at a channel as body.
\<close>

theorem encode_error_releases_locked_bucket_witness:
  "Encode exampleEnv Chan = Inl (Error ''json: unsupported type: chan int'') \<and>
   bucketKey ''/items/1?wait=true'' = Some ''/items/1'' \<and>
   lockBucket exampleEnv ''/items/1'' world0 = (''/items/1'', worldItem) \<and>
   Request exampleEnv ''POST'' ''/items/1?wait=true'' (Some Chan) None [(Some ok, None)] world0 =
   Some (Return None (Some (Error ''json: unsupported type: chan int'')),
         snd (release exampleEnv ''/items/1'' None worldItem),
         [Lock ''/items/1'', Release ''/items/1'' None])"
proof -
  have h1: "Encode exampleEnv Chan = Inl (Error ''json: unsupported type: chan int'')"
    by code_simp
  have h2: "bucketKey ''/items/1?wait=true'' = Some ''/items/1''"
    by code_simp
  have h3: "lockBucket exampleEnv ''/items/1'' world0 = (''/items/1'', worldItem)"
    by code_simp
  from encode_error_releases_locked_bucket [OF h1 h2 h3] h1 h2 h3 show ?thesis
    by simp
qed

text \<open>
  Claim C8 as stated fails: for a body that cannot be encoded the bucket is locked before
  the error is returned.
\<close>

theorem encode_error_bucket_already_locked:
  "Request exampleEnv ''POST'' ''/items/1'' (Some Chan) None [] world0 =
   Some (Return None (Some (Error ''json: unsupported type: chan int'')), worldItem,
         [Lock ''/items/1'', Release ''/items/1'' None])"
  by code_simp

section \<open>A bucket without remaining quota\<close>

text \<open>
  Claim C9: when \<open>Request\<close> starts while the bucket of its route has \<open>remaining = 0\<close>
  and the time is before \<open>resetAt\<close>, every request it hands to the transport is handed
  over at a time that is not before \<open>resetAt\<close>.
\<close>

theorem exhausted_bucket_waits_for_reset:
  assumes "bucketKey route = Some k"
      and "map_of (buckets w) k = Some bk"
      and "remaining bk = 0"
      and "now w < resetAt bk"
      and "Request (limiterEnv enc dec nre tok ua) method route data reason replies w =
           Some (out, w', evs)"
      and "(req, ws) \<in> set (sends evs)"
  shows "resetAt bk \<le> now ws"
proof -
  let ?E = "limiterEnv enc dec nre tok ua"
  from assms(1,5) obtain evs' where
    inner: "requestWithLockedBucket ?E method route ''application/json'' data k 0 reason replies
              (acquire k w) = Some (out, w', evs')"
    and evs: "evs = Lock k # evs'"
    by (cases "k = []")
       (auto simp: Request_def requestWithBucketID_def request_def split: option.splits)
  from assms(6) evs have "(req, ws) \<in> set (sends evs')"
    by simp
  from sends_not_before_start [OF inner this] have "now (acquire k w) \<le> now ws" .
  moreover from acquire_waits [OF assms(2,3)] have "resetAt bk \<le> now (acquire k w)" .
  ultimately show ?thesis by simp
qed

text \<open>
  Claim C9, the theorem at a bucket with \<open>resetAt = 10000\<close> and a call that starts at
  time 2000: the request is sent at time 10000.
\<close>

theorem exhausted_bucket_waits_for_reset_witness:
  "bucketKey ''/items/1'' = Some ''/items/1'' \<and>
   map_of (buckets worldExhausted) ''/items/1'' = Some exhausted \<and>
   remaining exhausted = 0 \<and>
   now worldExhausted < resetAt exhausted \<and>
   Request exampleEnv ''GET'' ''/items/1'' None None [(Some ok, None)] worldExhausted =
     Some (Return (Some ok) None, worldExhausted\<lparr>now := 10000\<rparr>,
           [Lock ''/items/1'', Send getItem (worldExhausted\<lparr>now := 10000\<rparr>),
            Release ''/items/1'' (Some [])]) \<and>
   resetAt exhausted \<le> now (worldExhausted\<lparr>now := 10000\<rparr>)"
proof -
  have h1: "bucketKey ''/items/1'' = Some ''/items/1''"
    by code_simp
  have h2: "map_of (buckets worldExhausted) ''/items/1'' = Some exhausted"
    by code_simp
  have h3: "remaining exhausted = 0"
    by code_simp
  have h4: "now worldExhausted < resetAt exhausted"
    by code_simp
  have h5: "Request exampleEnv ''GET'' ''/items/1'' None None [(Some ok, None)] worldExhausted =
     Some (Return (Some ok) None, worldExhausted\<lparr>now := 10000\<rparr>,
           [Lock ''/items/1'', Send getItem (worldExhausted\<lparr>now := 10000\<rparr>),
            Release ''/items/1'' (Some [])])"
    by code_simp
  have h6: "(getItem, worldExhausted\<lparr>now := 10000\<rparr>) \<in>
            set (sends [Lock ''/items/1'', Send getItem (worldExhausted\<lparr>now := 10000\<rparr>),
                        Release ''/items/1'' (Some [])])"
    by simp
  from exhausted_bucket_waits_for_reset [OF h1 h2 h3 h4 h5 [unfolded exampleEnv_def] h6]
       h1 h2 h3 h4 h5
  show ?thesis
    by simp
qed

section \<open>Payloads that are not accepted\<close>

text \<open>
  Claim C10: for a payload whose dynamic type is none of the three double pointers, and
  for a nil payload, \<open>CreateInteractionResponse\<close> posts nothing and returns a nil error.
\<close>

theorem unsupported_payload_dropped:
  assumes "ty \<noteq> Pointer (Pointer InteractionResponseMessages)"
      and "ty \<noteq> Pointer (Pointer InteractionResponseAutocomplete)"
      and "ty \<noteq> Pointer (Pointer InteractionResponseModal)"
  shows "CreateInteractionResponse firePostRequest u (Some (ty, v)) = (None, []) \<and>
         CreateInteractionResponse firePostRequest u None = (None, [])"
  using assms
  by (cases "(firePostRequest, u, Some (ty, v))" rule: CreateInteractionResponse.cases) auto

text \<open>
  Claim C10, the theorem at a single pointer to \<open>InteractionResponseMessages\<close>.
\<close>

theorem unsupported_payload_dropped_witness:
  "Pointer InteractionResponseMessages \<noteq> Pointer (Pointer InteractionResponseMessages) \<and>
   Pointer InteractionResponseMessages \<noteq> Pointer (Pointer InteractionResponseAutocomplete) \<and>
   Pointer InteractionResponseMessages \<noteq> Pointer (Pointer InteractionResponseModal) \<and>
   CreateInteractionResponse (\<lambda>u payload reason. ([], Some (Error ''unreachable'')))
     ''/interactions/1/token/callback'' (Some (Pointer InteractionResponseMessages, ''{}'')) =
   (None, [])"
proof -
  have h1: "Pointer InteractionResponseMessages \<noteq> Pointer (Pointer InteractionResponseMessages)"
    by simp
  have h2: "Pointer InteractionResponseMessages \<noteq> Pointer (Pointer InteractionResponseAutocomplete)"
    by simp
  have h3: "Pointer InteractionResponseMessages \<noteq> Pointer (Pointer InteractionResponseModal)"
    by simp
  from unsupported_payload_dropped [OF h1 h2 h3] show ?thesis
    by simp
qed

end
